theory Spec2Isabelle
  imports Complex_Main
begin

section \<open>Qt value types used by the node\<close>

text \<open>
  \<^verbatim>\<open>qreal\<close> is a C++ \<^verbatim>\<open>double\<close>. It is modelled by the real numbers: every
  arithmetic operation on doubles is the exact one, and neither its rounding nor NaN or
  infinite doubles are represented. The fields of a vertex are of the C++ type
  \<^verbatim>\<open>float\<close>; they are modelled by the type \<open>float\<close> below, and every double that is
  stored in a vertex is converted by \<open>to_float\<close>.
\<close>

type_synonym qreal = real

record QPointF =
  pt_x :: qreal
  pt_y :: qreal

record QRectF =
  rect_x :: qreal
  rect_y :: qreal
  rect_width :: qreal
  rect_height :: qreal

text \<open>\<^verbatim>\<open>QRectF::isEmpty()\<close>: the width or the height is not positive.\<close>

definition isEmpty :: "QRectF \<Rightarrow> bool" where
  "isEmpty r \<longleftrightarrow> rect_width r \<le> 0 \<or> rect_height r \<le> 0"

definition rect_left :: "QRectF \<Rightarrow> qreal" where
  "rect_left r = rect_x r"

definition rect_top :: "QRectF \<Rightarrow> qreal" where
  "rect_top r = rect_y r"

definition rect_right :: "QRectF \<Rightarrow> qreal" where
  "rect_right r = rect_x r + rect_width r"

definition rect_bottom :: "QRectF \<Rightarrow> qreal" where
  "rect_bottom r = rect_y r + rect_height r"

text \<open>
  The two fuzzy comparisons are functions of QtCore and not part of the sources. They are
  modelled as the Qt headers define them for \<^verbatim>\<open>double\<close>:
  \<^verbatim>\<open>qFuzzyIsNull(d)\<close> is \<^verbatim>\<open>qAbs(d) <= 0.000000000001\<close>, and
  \<^verbatim>\<open>qFuzzyCompare(p1, p2)\<close> is
  \<^verbatim>\<open>qAbs(p1 - p2) * 1000000000000. <= qMin(qAbs(p1), qAbs(p2))\<close>. The second is
  relative to the smaller magnitude; Qt documents that it does not work when one of the
  values is 0.0.
\<close>

definition qFuzzyIsNull :: "qreal \<Rightarrow> bool" where
  "qFuzzyIsNull d \<longleftrightarrow> \<bar>d\<bar> \<le> 1 / 1000000000000"

definition qFuzzyCompare :: "qreal \<Rightarrow> qreal \<Rightarrow> bool" where
  "qFuzzyCompare p1 p2 \<longleftrightarrow> \<bar>p1 - p2\<bar> * 1000000000000 \<le> min \<bar>p1\<bar> \<bar>p2\<bar>"

section \<open>Single precision\<close>

text \<open>
  A C++ \<^verbatim>\<open>float\<close> is an IEEE-754 binary32 value: a finite value \<open>n * 2\<^sup>e\<^sup>-\<^sup>2\<^sup>3\<close> with
  \<open>\<bar>n\<bar> < 2\<^sup>2\<^sup>4\<close> and \<open>-126 \<le> e \<le> 127\<close>, or an infinity. (A NaN does not arise from
  the conversion of a finite double.)
\<close>

datatype float = Finite real | PosInf | NegInf

text \<open>
  The exponent of the binade that holds the magnitude \<open>a\<close>: the greatest \<open>e\<close> from -126
  to 127 with \<open>2\<^sup>e \<le> a\<close>. The subnormal values share the exponent -126.
\<close>

definition binade :: "real \<Rightarrow> int" where
  "binade a = Max (insert (- 126) {e \<in> {- 126 .. 127}. 2 powi e \<le> a})"

text \<open>Rounding to the nearest integer, a tie to the even one.\<close>

definition round_to_even :: "real \<Rightarrow> int" where
  "round_to_even r =
     (let f = \<lfloor>r\<rfloor> in
      if r - of_int f < 1 / 2 then f
      else if 1 / 2 < r - of_int f then f + 1
      else if even f then f else f + 1)"

text \<open>The largest finite \<^verbatim>\<open>float\<close>, \<open>(2\<^sup>2\<^sup>4 - 1) * 2\<^sup>1\<^sup>0\<^sup>4\<close>.\<close>

definition FLT_MAX :: real where
  "FLT_MAX = (2 ^ 24 - 1) * 2 ^ 104"

text \<open>
  The conversion of a double to \<^verbatim>\<open>float\<close>, as in the call
  \<^verbatim>\<open>points[i].set(float, float, float, float)\<close> with double arguments and in an
  assignment of a \<^verbatim>\<open>qreal\<close> to a field of a vertex: the value is rounded to the nearest
  multiple of the unit in the last place of its binade, a tie to the even multiple, and a
  result beyond the largest finite value is an infinity.
\<close>

definition to_float :: "real \<Rightarrow> float" where
  "to_float x =
     (let q = 2 powi (binade \<bar>x\<bar> - 23);
          r = of_int (round_to_even (x / q)) * q
      in if FLT_MAX < r then PosInf else if r < - FLT_MAX then NegInf else Finite r)"

section \<open>Shape\<close>

record Shape =
  rect :: QRectF
  radius :: qreal

text \<open>
  \<^verbatim>\<open>Shape::operator==\<close> is \<^verbatim>\<open>rect == b.rect && qFuzzyCompare(radius, b.radius)\<close>.
  The comparison of two \<^verbatim>\<open>QRectF\<close> is Qt's and differs between Qt versions, so it is
  the parameter \<open>rect_eq\<close>.
\<close>

definition Shape_eq :: "(QRectF \<Rightarrow> QRectF \<Rightarrow> bool) \<Rightarrow> Shape \<Rightarrow> Shape \<Rightarrow> bool" where
  "Shape_eq rect_eq a b \<longleftrightarrow> rect_eq (rect a) (rect b) \<and> qFuzzyCompare (radius a) (radius b)"

text \<open>\<^verbatim>\<open>Shape::isValid()\<close>: \<^verbatim>\<open>!rect.isEmpty() && std::isgreaterequal(radius, 0.0)\<close>.\<close>

definition isValid :: "Shape \<Rightarrow> bool" where
  "isValid s \<longleftrightarrow> \<not> isEmpty (rect s) \<and> radius s \<ge> 0"

section \<open>Faults\<close>

text \<open>
  A failed \<^verbatim>\<open>assert\<close> aborts the process, and a dereference of a null or dangling
  pointer is undefined behaviour. Both are results of the model. The assertions are live:
  with \<^verbatim>\<open>NDEBUG\<close> defined \<^verbatim>\<open>material_cast\<close> names the undeclared \<^verbatim>\<open>object\<close> and the
  translation unit does not compile.
\<close>

datatype fault = AssertionFailed | NullDereference | DanglingPointer | IndexOutOfRange

section \<open>The painter path and the symmetric reorder\<close>

datatype ElementType = MoveToElement | LineToElement | CurveToElement | CurveToDataElement

record Element =
  el_x :: qreal
  el_y :: qreal
  el_type :: ElementType

text \<open>\<^verbatim>\<open>QPainterPath::Element::operator QPointF()\<close>.\<close>

definition toPointF :: "Element \<Rightarrow> QPointF" where
  "toPointF e = \<lparr>pt_x = el_x e, pt_y = el_y e\<rparr>"

definition drawable :: "Element \<Rightarrow> bool" where
  "drawable e \<longleftrightarrow> el_type e = MoveToElement \<or> el_type e = LineToElement"

text \<open>
  The loop of \<^verbatim>\<open>rebuildGeometry\<close> over the elements of the simplified painter path
  (\<^verbatim>\<open>for (int i = 0; i < elementCount; ++i)\<close>): the assertion on element \<open>i\<close>, then
  \<^verbatim>\<open>(*path)[i] = painterPath.elementAt((i % 2) ? i : elementCount - i - 1)\<close>.
\<close>

function symmetric_loop :: "Element list \<Rightarrow> nat \<Rightarrow> QPointF list \<Rightarrow> fault + QPointF list" where
  "symmetric_loop es i path =
     (if i < length es then
        (if drawable (es ! i) then
           symmetric_loop es (i + 1)
             (path[i := toPointF (es ! (if i mod 2 \<noteq> 0 then i else length es - i - 1))])
         else Inl AssertionFailed)
      else Inr path)"
  by pat_completeness auto

termination
  by (relation "measure (\<lambda>(es, i, path). length es - i)") auto

declare symmetric_loop.simps [simp del]

text \<open>
  \<^verbatim>\<open>std::make_unique<QVector<QPointF>>(painterPath.elementCount())\<close> holds
  \<^verbatim>\<open>elementCount\<close> default-constructed points, which the loop then overwrites.
\<close>

definition symmetric_path :: "Element list \<Rightarrow> fault + QPointF list" where
  "symmetric_path es = symmetric_loop es 0 (replicate (length es) \<lparr>pt_x = 0, pt_y = 0\<rparr>)"

text \<open>The index the loop reads at position \<open>i\<close> of a path of \<open>m\<close> elements.\<close>

definition source_index :: "nat \<Rightarrow> nat \<Rightarrow> nat" where
  "source_index m i = (if i mod 2 \<noteq> 0 then i else m - i - 1)"

section \<open>The outline cache\<close>

text \<open>
  \<^verbatim>\<open>static QCache<ShapePair, QVector<QPointF>> paths\<close>. The key is
  \<^verbatim>\<open>{{width, height}, radius}\<close>, compared exactly. A \<^verbatim>\<open>QCache\<close> keeps its entries in
  order of use; it is a list with the most recently used entry first. The cache is
  constructed with Qt's default maximal cost of 100 and every insertion has Qt's default
  cost 1, so that at most 100 entries are kept and the least recently used are dropped.
\<close>

type_synonym ShapePair = "(qreal \<times> qreal) \<times> qreal"

type_synonym QCache = "(ShapePair \<times> QPointF list) list"

definition cache_contains :: "QCache \<Rightarrow> ShapePair \<Rightarrow> bool" where
  "cache_contains c k \<longleftrightarrow> map_of c k \<noteq> None"

text \<open>\<^verbatim>\<open>QCache::object(key)\<close> returns the entry and makes it the most recently used.\<close>

definition cache_object :: "QCache \<Rightarrow> ShapePair \<Rightarrow> QPointF list option \<times> QCache" where
  "cache_object c k =
     (case map_of c k of
        None \<Rightarrow> (None, c)
      | Some p \<Rightarrow> (Some p, (k, p) # filter (\<lambda>e. fst e \<noteq> k) c))"

text \<open>\<^verbatim>\<open>QCache::insert(key, object)\<close> replaces an entry of the same key and trims.\<close>

definition cache_insert :: "QCache \<Rightarrow> ShapePair \<Rightarrow> QPointF list \<Rightarrow> QCache" where
  "cache_insert c k p = (k, p) # take 99 (filter (\<lambda>e. fst e \<noteq> k) c)"

text \<open>
  The library calls of the source whose code is Qt's and whose result the source only
  passes on: the comparison of two \<^verbatim>\<open>QRectF\<close>, and the elements of
  \<^verbatim>\<open>QPainterPath p; p.addRoundedRect(0, 0, w, h, r, r); p.simplified()\<close> for given
  \<open>w\<close>, \<open>h\<close>, \<open>r\<close>. They are parameters of the model.
\<close>

record Qt =
  QRectF_equal :: "QRectF \<Rightarrow> QRectF \<Rightarrow> bool"
  simplifiedRoundedRect :: "qreal \<Rightarrow> qreal \<Rightarrow> qreal \<Rightarrow> Element list"

definition shape_key :: "Shape \<Rightarrow> ShapePair" where
  "shape_key shape = ((rect_width (rect shape), rect_height (rect shape)), radius shape)"

text \<open>
  The branch of \<^verbatim>\<open>rebuildGeometry\<close> for a radius that is not fuzzily zero, up to
  \<^verbatim>\<open>vertexCount = path->count()\<close>: the path of a hit is the cached one, the path of a
  miss is built by the loop and a copy of it is inserted.
\<close>

definition build_path :: "Qt \<Rightarrow> ShapePair \<Rightarrow> fault + QPointF list" where
  "build_path qt key =
     symmetric_path (simplifiedRoundedRect qt (fst (fst key)) (snd (fst key)) (snd key))"

definition cached_path :: "Qt \<Rightarrow> Shape \<Rightarrow> QCache \<Rightarrow> fault + (QPointF list \<times> QCache)" where
  "cached_path qt shape c =
     (let key = shape_key shape in
      if cache_contains c key then
        (case cache_object c key of
           (None, c') \<Rightarrow> Inl NullDereference
         | (Some p, c') \<Rightarrow> Inr (p, c'))
      else
        (case build_path qt key of
           Inl f \<Rightarrow> Inl f
         | Inr p \<Rightarrow> Inr (p, cache_insert c key p)))"

section \<open>Textures and geometry buffers\<close>

record QSGTexture =
  isAtlasTexture :: bool
  normalizedTextureSubRect :: QRectF

datatype DataPattern = AlwaysUploadPattern | StreamPattern | DynamicPattern | StaticPattern

datatype DrawingMode =
  DrawPoints | DrawLines | DrawLineLoop | DrawLineStrip | DrawTriangles | DrawTriangleStrip
  | DrawTriangleFan

datatype AttributeSet = Point2D_attributes | TexturedPoint2D_attributes | ColoredPoint2D_attributes

record TexturedPoint2D =
  v_x :: float
  v_y :: float
  v_tx :: float
  v_ty :: float

record QSGGeometry =
  attributes :: AttributeSet
  vertexData :: "TexturedPoint2D list"
  indexDataPattern :: DataPattern
  vertexDataPattern :: DataPattern
  drawingMode :: DrawingMode
  indexDataDirty :: bool
  vertexDataDirty :: bool

definition vertexCount :: "QSGGeometry \<Rightarrow> nat" where
  "vertexCount g = length (vertexData g)"

fun stride :: "AttributeSet \<Rightarrow> nat" where
  "stride Point2D_attributes = 8"
| "stride TexturedPoint2D_attributes = 16"
| "stride ColoredPoint2D_attributes = 12"

definition sizeOfVertex :: "QSGGeometry \<Rightarrow> nat" where
  "sizeOfVertex g = stride (attributes g)"

text \<open>The content of a vertex that has been allocated and not yet written.\<close>

definition unwritten :: TexturedPoint2D where
  "unwritten = \<lparr>v_x = Finite 0, v_y = Finite 0, v_tx = Finite 0, v_ty = Finite 0\<rparr>"

text \<open>
  \<^verbatim>\<open>new QSGGeometry(defaultAttributes_TexturedPoint2D(), vertexCount)\<close> followed by the
  three setters of the source.
\<close>

definition new_geometry :: "nat \<Rightarrow> QSGGeometry" where
  "new_geometry n =
     \<lparr>attributes = TexturedPoint2D_attributes, vertexData = replicate n unwritten,
      indexDataPattern = StaticPattern, vertexDataPattern = StaticPattern,
      drawingMode = DrawTriangleStrip, indexDataDirty = True, vertexDataDirty = True\<rparr>"

text \<open>
  \<^verbatim>\<open>QSGGeometry::allocate(vertexCount)\<close>: a buffer that is large enough keeps its data
  and shrinks its count; otherwise the data is reallocated and marked dirty.
\<close>

definition allocate :: "QSGGeometry \<Rightarrow> nat \<Rightarrow> QSGGeometry" where
  "allocate g n =
     (if n \<le> length (vertexData g) then g\<lparr>vertexData := take n (vertexData g)\<rparr>
      else g\<lparr>vertexData := replicate n unwritten, indexDataDirty := True, vertexDataDirty := True\<rparr>)"

text \<open>The five assertions on a geometry that the caller supplied.\<close>

definition compatible :: "QSGGeometry \<Rightarrow> bool" where
  "compatible g \<longleftrightarrow>
     indexDataPattern g = StaticPattern \<and> vertexDataPattern g = StaticPattern \<and>
     drawingMode g = DrawTriangleStrip \<and> attributes g = TexturedPoint2D_attributes \<and>
     sizeOfVertex g = stride TexturedPoint2D_attributes"

text \<open>
  Modelled from the spec: \<^verbatim>\<open>QSGGeometry::updateTexturedRectGeometry(g, rect, textureRect)\<close>
  is a helper of Qt Quick and not part of the sources. It writes the vertices 0 to 3 of a
  triangle strip: the corners top left, bottom left, top right and bottom right of
  \<open>rect\<close>, with the same corners of \<open>textureRect\<close> as texture coordinates. The two
  rectangles hold doubles and the fields of a vertex are floats, so every coordinate is
  converted.
\<close>

definition corner_vertex :: "float \<Rightarrow> float \<Rightarrow> float \<Rightarrow> float \<Rightarrow> TexturedPoint2D" where
  "corner_vertex x y tx ty = \<lparr>v_x = x, v_y = y, v_tx = tx, v_ty = ty\<rparr>"

definition updateTexturedRectGeometry :: "QSGGeometry \<Rightarrow> QRectF \<Rightarrow> QRectF \<Rightarrow> QSGGeometry" where
  "updateTexturedRectGeometry g r t =
     g\<lparr>vertexData := (vertexData g)
        [0 := corner_vertex (to_float (rect_left r)) (to_float (rect_top r))
                (to_float (rect_left t)) (to_float (rect_top t)),
         1 := corner_vertex (to_float (rect_left r)) (to_float (rect_bottom r))
                (to_float (rect_left t)) (to_float (rect_bottom t)),
         2 := corner_vertex (to_float (rect_right r)) (to_float (rect_top r))
                (to_float (rect_right t)) (to_float (rect_top t)),
         3 := corner_vertex (to_float (rect_right r)) (to_float (rect_bottom r))
                (to_float (rect_right t)) (to_float (rect_bottom t))]\<rparr>"

text \<open>
  The lambda \<^verbatim>\<open>mapToAtlasTexture\<close> and the body of the loop over the vertices. The
  body computes in doubles and ends in \<^verbatim>\<open>points[i].set(...)\<close>, whose parameters are
  floats.
\<close>

definition mapToAtlasTexture :: "QRectF \<Rightarrow> QPointF \<Rightarrow> QPointF" where
  "mapToAtlasTexture texNormalSubRect nPoint =
     \<lparr>pt_x = rect_x texNormalSubRect + rect_width texNormalSubRect * pt_x nPoint,
      pt_y = rect_y texNormalSubRect + rect_height texNormalSubRect * pt_y nPoint\<rparr>"

definition textured_vertex :: "Shape \<Rightarrow> bool \<Rightarrow> QRectF \<Rightarrow> QPointF \<Rightarrow> TexturedPoint2D" where
  "textured_vertex shape atlas texNormalSubRect pos =
     (let dx = rect_x (rect shape);
          dy = rect_y (rect shape);
          tPos0 = \<lparr>pt_x = pt_x pos / rect_width (rect shape),
                   pt_y = pt_y pos / rect_height (rect shape)\<rparr>;
          tPos = (if atlas then mapToAtlasTexture texNormalSubRect tPos0 else tPos0)
      in \<lparr>v_x = to_float (pt_x pos + dx), v_y = to_float (pt_y pos + dy),
          v_tx = to_float (pt_x tPos), v_ty = to_float (pt_y tPos)\<rparr>)"

text \<open>
  \<^verbatim>\<open>for (int i = 0; i < geometry->vertexCount(); ++i)\<close> with \<^verbatim>\<open>path->at(i)\<close>, which is
  out of range when the path is shorter than the buffer.
\<close>

function fill_vertices ::
  "QPointF list \<Rightarrow> Shape \<Rightarrow> bool \<Rightarrow> QRectF \<Rightarrow> nat \<Rightarrow> TexturedPoint2D list
   \<Rightarrow> fault + TexturedPoint2D list" where
  "fill_vertices path shape atlas sub i points =
     (if i < length points then
        (if i < length path then
           fill_vertices path shape atlas sub (i + 1)
             (points[i := textured_vertex shape atlas sub (path ! i)])
         else Inl IndexOutOfRange)
      else Inr points)"
  by pat_completeness auto

termination
  by (relation "measure (\<lambda>(path, shape, atlas, sub, i, points). length points - i)") auto

declare fill_vertices.simps [simp del]

text \<open>The two branches that write the vertices (the last \<^verbatim>\<open>if\<close> of the build).\<close>

definition write_vertices ::
  "Shape \<Rightarrow> QPointF list \<Rightarrow> bool \<Rightarrow> QRectF \<Rightarrow> QSGGeometry \<Rightarrow> fault + QSGGeometry" where
  "write_vertices shape path atlas sub g =
     (if qFuzzyIsNull (radius shape) then Inr (updateTexturedRectGeometry g (rect shape) sub)
      else
        (case fill_vertices path shape atlas sub 0 (vertexData g) of
           Inl f \<Rightarrow> Inl f
         | Inr points \<Rightarrow> Inr (g\<lparr>vertexData := points\<rparr>)))"

section \<open>The store and the static build\<close>

text \<open>
  Geometry buffers live on the heap and are named by their address. \<open>paths\<close> is the
  function-local static cache. \<open>rebuild_calls\<close> is not program state: it counts the calls
  of the member \<^verbatim>\<open>rebuildGeometry(const Shape&)\<close>, so that "a rebuild is triggered" can be
  stated.
\<close>

record world =
  heap :: "nat \<Rightarrow> QSGGeometry option"
  next_addr :: nat
  paths :: QCache
  rebuild_calls :: nat

text \<open>
  The \<^verbatim>\<open>if (!geometry)\<close> of the build: a new buffer, or the supplied one reallocated in
  place and then checked by the assertions.
\<close>

definition prepare_geometry :: "nat option \<Rightarrow> nat \<Rightarrow> world \<Rightarrow> fault + (nat \<times> QSGGeometry \<times> world)" where
  "prepare_geometry geometry n w =
     (case geometry of
        None \<Rightarrow>
          (let a = next_addr w; g = new_geometry n
           in Inr (a, g, w\<lparr>heap := (heap w)(a \<mapsto> g), next_addr := a + 1\<rparr>))
      | Some a \<Rightarrow>
          (case heap w a of
             None \<Rightarrow> Inl DanglingPointer
           | Some g0 \<Rightarrow>
               (let g = allocate g0 n
                in if compatible g then Inr (a, g, w\<lparr>heap := (heap w)(a \<mapsto> g)\<rparr>)
                   else Inl AssertionFailed)))"

definition unit_rect :: QRectF where
  "unit_rect = \<lparr>rect_x = 0, rect_y = 0, rect_width = 1, rect_height = 1\<rparr>"

definition texNormalSubRect :: "QSGTexture option \<Rightarrow> QRectF" where
  "texNormalSubRect atlasTexture =
     (case atlasTexture of Some t \<Rightarrow> normalizedTextureSubRect t | None \<Rightarrow> unit_rect)"

text \<open>
  The first part of the build: the vertex count and the path. A plain rectangle needs four
  vertices and no path (the null pointer of the source is the empty list).
\<close>

definition count_and_path :: "Qt \<Rightarrow> Shape \<Rightarrow> QCache \<Rightarrow> fault + (nat \<times> QPointF list \<times> QCache)" where
  "count_and_path qt shape c =
     (if qFuzzyIsNull (radius shape) then Inr (4, [], c)
      else
        (case cached_path qt shape c of
           Inl f \<Rightarrow> Inl f
         | Inr (p, c') \<Rightarrow> Inr (length p, p, c')))"

text \<open>
  The static \<^verbatim>\<open>rebuildGeometry(shape, geometry, atlasTexture)\<close>. The result \<open>None\<close> is
  the null pointer.
\<close>

definition rebuildGeometry_static ::
  "Qt \<Rightarrow> Shape \<Rightarrow> nat option \<Rightarrow> QSGTexture option \<Rightarrow> world \<Rightarrow> fault + (nat option \<times> world)" where
  "rebuildGeometry_static qt shape geometry atlasTexture w =
     (if \<not> isValid shape then Inr (None, w)
      else
        (case count_and_path qt shape (paths w) of
           Inl f \<Rightarrow> Inl f
         | Inr (n, path, c) \<Rightarrow>
             (case prepare_geometry geometry n (w\<lparr>paths := c\<rparr>) of
                Inl f \<Rightarrow> Inl f
              | Inr (a, g, w1) \<Rightarrow>
                  (case write_vertices shape path (atlasTexture \<noteq> None)
                          (texNormalSubRect atlasTexture) g of
                     Inl f \<Rightarrow> Inl f
                   | Inr g' \<Rightarrow>
                       Inr (Some a,
                            w1\<lparr>heap := (heap w1)
                                 (a \<mapsto> g'\<lparr>indexDataDirty := True, vertexDataDirty := True\<rparr>)\<rparr>)))))"

section \<open>The node\<close>

record Node =
  m_texture :: "QSGTexture option"
  m_shape :: Shape
  m_smooth :: bool
  node_geometry :: "nat option"
  material_texture :: "QSGTexture option"
  opaqueMaterial_texture :: "QSGTexture option"
  dirtyGeometry :: bool
  dirtyMaterial :: bool

text \<open>
  The node after its constructor: no texture, the default shape (a null rectangle and
  radius 0), no geometry. \<^verbatim>\<open>setSmooth(m_smooth)\<close> in the constructor returns at once.
\<close>

definition null_rect :: QRectF where
  "null_rect = \<lparr>rect_x = 0, rect_y = 0, rect_width = 0, rect_height = 0\<rparr>"

definition constructed :: Node where
  "constructed =
     \<lparr>m_texture = None, m_shape = \<lparr>rect = null_rect, radius = 0\<rparr>, m_smooth = True,
      node_geometry = None, material_texture = None, opaqueMaterial_texture = None,
      dirtyGeometry = False, dirtyMaterial = False\<rparr>"

definition initial_world :: world where
  "initial_world = \<lparr>heap = (\<lambda>a. None), next_addr = 0, paths = [], rebuild_calls = 0\<rparr>"

text \<open>
  \<^verbatim>\<open>QSGBasicGeometryNode::setGeometry\<close> of a node with the flag \<^verbatim>\<open>OwnsGeometry\<close>: the
  old geometry, if it is another one, is deleted.
\<close>

definition setGeometry :: "Node \<Rightarrow> nat \<Rightarrow> world \<Rightarrow> Node \<times> world" where
  "setGeometry n a w =
     (n\<lparr>node_geometry := Some a, dirtyGeometry := True\<rparr>,
      (case node_geometry n of
         None \<Rightarrow> w
       | Some old \<Rightarrow> if old = a then w else w\<lparr>heap := (heap w)(old := None)\<rparr>))"

text \<open>
  The third argument of the call in the member:
  \<^verbatim>\<open>m_texture->isAtlasTexture() ? m_texture.get() : nullptr\<close>.
\<close>

definition atlas_of :: "QSGTexture \<Rightarrow> QSGTexture option" where
  "atlas_of t = (if isAtlasTexture t then Some t else None)"

text \<open>
  The member \<^verbatim>\<open>rebuildGeometry(const Shape&)\<close>. The arguments of the call of the static
  build are evaluated first, and among them is \<^verbatim>\<open>m_texture->isAtlasTexture()\<close>.
\<close>

definition rebuildGeometry :: "Qt \<Rightarrow> Node \<Rightarrow> Shape \<Rightarrow> world \<Rightarrow> fault + (bool \<times> Node \<times> world)" where
  "rebuildGeometry qt n shape w =
     (let w0 = w\<lparr>rebuild_calls := rebuild_calls w + 1\<rparr> in
      case m_texture n of
        None \<Rightarrow> Inl NullDereference
      | Some t \<Rightarrow>
          (case rebuildGeometry_static qt shape (node_geometry n) (atlas_of t) w0 of
             Inl f \<Rightarrow> Inl f
           | Inr (None, w1) \<Rightarrow> Inr (False, n, w1)
           | Inr (Some a, w1) \<Rightarrow>
               (if node_geometry n = Some a then Inr (True, n\<lparr>dirtyGeometry := True\<rparr>, w1)
                else (case setGeometry n a w1 of (n2, w2) \<Rightarrow> Inr (True, n2, w2)))))"

text \<open>The inline \<^verbatim>\<open>rebuildGeometry()\<close> of the header: \<^verbatim>\<open>rebuildGeometry(m_shape)\<close>.\<close>

definition rebuildGeometry_current :: "Qt \<Rightarrow> Node \<Rightarrow> world \<Rightarrow> fault + (bool \<times> Node \<times> world)" where
  "rebuildGeometry_current qt n w = rebuildGeometry qt n (m_shape n) w"

definition setShape :: "Qt \<Rightarrow> Node \<Rightarrow> Shape \<Rightarrow> world \<Rightarrow> fault + (bool \<times> Node \<times> world)" where
  "setShape qt n shape w =
     (if Shape_eq (QRectF_equal qt) (m_shape n) shape then Inr (False, n, w)
      else
        (case rebuildGeometry qt n shape w of
           Inl f \<Rightarrow> Inl f
         | Inr (ret, n1, w1) \<Rightarrow> Inr (ret, if ret then n1\<lparr>m_shape := shape\<rparr> else n1, w1)))"

text \<open>\<^verbatim>\<open>setTexture\<close>; the argument \<open>None\<close> is a null \<^verbatim>\<open>shared_ptr\<close>.\<close>

definition setTexture :: "Qt \<Rightarrow> Node \<Rightarrow> QSGTexture option \<Rightarrow> world \<Rightarrow> fault + (Node \<times> world)" where
  "setTexture qt n texture w =
     (case texture of
        None \<Rightarrow> Inl AssertionFailed
      | Some t \<Rightarrow>
          (let wasAtlas = (case m_texture n of None \<Rightarrow> True | Some old \<Rightarrow> isAtlasTexture old);
               n1 = n\<lparr>m_texture := Some t\<rparr>
           in case (if wasAtlas \<or> isAtlasTexture t then
                      (case rebuildGeometry_current qt n1 w of
                         Inl f \<Rightarrow> Inl f
                       | Inr (ret, n2, w2) \<Rightarrow> Inr (n2, w2))
                    else Inr (n1, w)) of
                Inl f \<Rightarrow> Inl f
              | Inr (n2, w2) \<Rightarrow>
                  Inr (n2\<lparr>material_texture := Some t, opaqueMaterial_texture := Some t,
                          dirtyMaterial := True\<rparr>, w2)))"

section \<open>Predicates of the statements\<close>

text \<open>
  The invariant of the cache across builds: every entry is the path that the loop builds
  for the key of the entry.
\<close>

definition cache_ok :: "Qt \<Rightarrow> QCache \<Rightarrow> bool" where
  "cache_ok qt c \<longleftrightarrow> (\<forall>e \<in> set c. build_path qt (fst e) = Inr (snd e))"

text \<open>The elements that a miss of the cache enumerates for a shape.\<close>

definition simplified_elements :: "Qt \<Rightarrow> Shape \<Rightarrow> Element list" where
  "simplified_elements qt shape =
     simplifiedRoundedRect qt (rect_width (rect shape)) (rect_height (rect shape)) (radius shape)"

text \<open>
  A geometry that the build accepts: none, or the address of a live buffer that passes
  the assertions.
\<close>

definition buffer_ok :: "nat option \<Rightarrow> world \<Rightarrow> bool" where
  "buffer_ok geometry w \<longleftrightarrow>
     (case geometry of
        None \<Rightarrow> True
      | Some a \<Rightarrow> (case heap w a of None \<Rightarrow> False | Some g \<Rightarrow> compatible g))"

text \<open>The node holds a texture, and it is an atlas texture.\<close>

definition previous_atlas :: "Node \<Rightarrow> bool" where
  "previous_atlas n \<longleftrightarrow> (case m_texture n of None \<Rightarrow> False | Some old \<Rightarrow> isAtlasTexture old)"



section \<open>Example inputs\<close>

text \<open>
  A stand-in for the simplified painter path, used where a theorem is applied to concrete
  values: every corner arc is flattened to one chord.
\<close>

definition chamfered :: "qreal \<Rightarrow> qreal \<Rightarrow> qreal \<Rightarrow> Element list" where
  "chamfered w h r =
     (let c = min r (min w h / 2) in
      [\<lparr>el_x = c, el_y = 0, el_type = MoveToElement\<rparr>,
       \<lparr>el_x = w - c, el_y = 0, el_type = LineToElement\<rparr>,
       \<lparr>el_x = w, el_y = c, el_type = LineToElement\<rparr>,
       \<lparr>el_x = w, el_y = h - c, el_type = LineToElement\<rparr>,
       \<lparr>el_x = w - c, el_y = h, el_type = LineToElement\<rparr>,
       \<lparr>el_x = c, el_y = h, el_type = LineToElement\<rparr>,
       \<lparr>el_x = 0, el_y = h - c, el_type = LineToElement\<rparr>,
       \<lparr>el_x = 0, el_y = c, el_type = LineToElement\<rparr>])"

definition example_qt :: Qt where
  "example_qt = \<lparr>QRectF_equal = (=), simplifiedRoundedRect = chamfered\<rparr>"

text \<open>
  A path that still holds the curve elements of a corner arc, as a painter path that has
  not been flattened does.
\<close>

definition with_arc :: "qreal \<Rightarrow> qreal \<Rightarrow> qreal \<Rightarrow> Element list" where
  "with_arc w h r =
     [\<lparr>el_x = r, el_y = 0, el_type = MoveToElement\<rparr>,
      \<lparr>el_x = w - r, el_y = 0, el_type = LineToElement\<rparr>,
      \<lparr>el_x = w, el_y = 0, el_type = CurveToElement\<rparr>,
      \<lparr>el_x = w, el_y = 0, el_type = CurveToDataElement\<rparr>,
      \<lparr>el_x = w, el_y = r, el_type = CurveToDataElement\<rparr>,
      \<lparr>el_x = w, el_y = h, el_type = LineToElement\<rparr>,
      \<lparr>el_x = 0, el_y = h, el_type = LineToElement\<rparr>,
      \<lparr>el_x = 0, el_y = r, el_type = LineToElement\<rparr>]"

definition arc_qt :: Qt where
  "arc_qt = \<lparr>QRectF_equal = (=), simplifiedRoundedRect = with_arc\<rparr>"

definition rounded_shape :: Shape where
  "rounded_shape =
     \<lparr>rect = \<lparr>rect_x = 10, rect_y = 20, rect_width = 100, rect_height = 50\<rparr>, radius = 10\<rparr>"

definition zero_shape :: Shape where
  "zero_shape = \<lparr>rect = rect rounded_shape, radius = 0\<rparr>"

definition tiny_shape :: Shape where
  "tiny_shape = \<lparr>rect = rect rounded_shape, radius = 5 / 10000000000000\<rparr>"

text \<open>An invalid shape: the null rectangle with radius 10.\<close>

definition empty_shape :: Shape where
  "empty_shape = \<lparr>rect = null_rect, radius = 10\<rparr>"


definition plain_texture :: QSGTexture where
  "plain_texture = \<lparr>isAtlasTexture = False, normalizedTextureSubRect = unit_rect\<rparr>"

text \<open>The node and the store after \<^verbatim>\<open>setTexture\<close> of a texture that is no atlas.\<close>

definition textured_node :: Node where
  "textured_node =
     constructed\<lparr>m_texture := Some plain_texture, material_texture := Some plain_texture,
                 opaqueMaterial_texture := Some plain_texture, dirtyMaterial := True\<rparr>"

definition textured_world :: world where
  "textured_world = initial_world\<lparr>rebuild_calls := 1\<rparr>"







section \<open>The conversion to single precision\<close>

lemma two_powi_less:
  assumes "(2::real) powi y < 2 powi k"
  shows "y < k"
proof (rule ccontr)
  assume "\<not> y < k"
  then have "k \<le> y"
    by simp
  then have "(2::real) powi k \<le> 2 powi y"
    by (rule power_int_increasing) simp
  with assms show False
    by simp
qed

lemma binade_eq:
  assumes "- 126 \<le> e" and "e \<le> 127" and "2 powi e \<le> a" and "a < 2 powi (e + 1)"
  shows "binade a = e"
  unfolding binade_def
proof (rule Max_eqI)
  show "finite (insert (- 126) {e \<in> {- 126 .. 127}. 2 powi e \<le> a})"
    by (rule finite_subset [of _ "{- 126 .. 127}"]) auto
  show "e \<in> insert (- 126) {e \<in> {- 126 .. 127}. 2 powi e \<le> a}"
    using assms by simp
  fix y
  assume "y \<in> insert (- 126) {e \<in> {- 126 .. 127}. 2 powi e \<le> a}"
  then consider "y = - 126" | "(2::real) powi y \<le> a"
    by auto
  then show "y \<le> e"
  proof cases
    case 1
    with assms(1) show ?thesis
      by simp
  next
    case 2
    with assms(4) have "(2::real) powi y < 2 powi (e + 1)"
      by simp
    then have "y < e + 1"
      by (rule two_powi_less)
    then show ?thesis
      by simp
  qed
qed


lemma round_to_even_tie:
  "round_to_even (of_int n + 1 / 2) = (if even n then n else n + 1)"
proof -
  have "\<lfloor>of_int n + (1 / 2 :: real)\<rfloor> = n"
    by (intro floor_unique) simp_all
  then show ?thesis
    by (simp add: round_to_even_def)
qed


lemma to_float_tie:
  assumes "- 126 \<le> e" and "e \<le> 127"
    and "2 powi e \<le> \<bar>x\<bar>" and "\<bar>x\<bar> < 2 powi (e + 1)"
    and "x / 2 powi (e - 23) = of_int n + 1 / 2" and "even n"
    and "\<bar>of_int n * 2 powi (e - 23)\<bar> \<le> FLT_MAX"
  shows "to_float x = Finite (of_int n * 2 powi (e - 23))"
proof -
  have b: "binade \<bar>x\<bar> = e"
    using assms(1-4) by (rule binade_eq)
  have r: "round_to_even (x / 2 powi (e - 23)) = n"
    using assms(5,6) by (simp add: round_to_even_tie)
  from assms(7) show ?thesis
    by (simp add: to_float_def Let_def b r abs_le_iff not_less)
qed















lemma to_float_above_2_24: "to_float 16777217 = Finite 16777216"
  using to_float_tie [of 24 16777217 8388608]
  by (simp add: FLT_MAX_def)

section \<open>The symmetric reorder in closed form\<close>

lemma symmetric_loop_done:
  "length es \<le> i \<Longrightarrow> symmetric_loop es i path = Inr path"
  by (subst symmetric_loop.simps) simp

lemma symmetric_loop_step:
  "i < length es \<Longrightarrow> drawable (es ! i) \<Longrightarrow>
   symmetric_loop es i path =
     symmetric_loop es (Suc i) (path[i := toPointF (es ! source_index (length es) i)])"
  by (subst symmetric_loop.simps) (simp add: source_index_def)

lemma symmetric_loop_abort:
  "i < length es \<Longrightarrow> \<not> drawable (es ! i) \<Longrightarrow> symmetric_loop es i path = Inl AssertionFailed"
  by (subst symmetric_loop.simps) simp

lemma symmetric_loop_closed:
  assumes "\<forall>j < length es. i \<le> j \<longrightarrow> drawable (es ! j)"
    and "length path = length es"
  shows "symmetric_loop es i path =
           Inr (take i path @ map (\<lambda>j. toPointF (es ! source_index (length es) j)) [i ..< length es])"
  using assms
proof (induction es i path rule: symmetric_loop.induct)
  case (1 es i path)
  show ?case
  proof (cases "i < length es")
    case False
    with "1.prems" show ?thesis
      by (simp add: symmetric_loop_done)
  next
    case True
    let ?v = "toPointF (es ! source_index (length es) i)"
    let ?f = "\<lambda>j. toPointF (es ! source_index (length es) j)"
    from True "1.prems" have d: "drawable (es ! i)"
      by simp
    have ih: "symmetric_loop es (i + 1) (path[i := ?v]) =
                Inr (take (i + 1) (path[i := ?v]) @ map ?f [i + 1 ..< length es])"
      using "1.IH" [OF True d] "1.prems" by (simp add: source_index_def)
    have t: "take (i + 1) (path[i := ?v]) = take i path @ [?v]"
      using True "1.prems"(2) by (simp add: take_Suc_conv_app_nth)
    have u: "[i ..< length es] = i # [i + 1 ..< length es]"
      using True by (simp add: upt_conv_Cons)
    show ?thesis
      using ih t by (simp add: symmetric_loop_step [OF True d] u)
  qed
qed

lemma symmetric_path_closed:
  assumes "\<forall>e \<in> set es. drawable e"
  shows "symmetric_path es = Inr (map (\<lambda>j. toPointF (es ! source_index (length es) j)) [0 ..< length es])"
  using assms by (simp add: symmetric_path_def symmetric_loop_closed)

lemma symmetric_loop_refuses:
  assumes "i \<le> k" and "k < length es" and "\<not> drawable (es ! k)"
  shows "symmetric_loop es i path = Inl AssertionFailed"
  using assms
proof (induction es i path rule: symmetric_loop.induct)
  case (1 es i path)
  from "1.prems" have lt: "i < length es"
    by simp
  show ?case
  proof (cases "drawable (es ! i)")
    case False
    with lt show ?thesis
      by (simp add: symmetric_loop_abort)
  next
    case True
    with "1.prems" have "i \<noteq> k"
      by auto
    with "1.prems" have "i + 1 \<le> k"
      by simp
    with "1.IH" [OF lt True] "1.prems" show ?thesis
      by (simp add: symmetric_loop_step [OF lt True] source_index_def)
  qed
qed

lemma symmetric_path_refuses:
  assumes "\<exists>e \<in> set es. \<not> drawable e"
  shows "symmetric_path es = Inl AssertionFailed"
proof -
  from assms obtain k where "k < length es" and "\<not> drawable (es ! k)"
    by (auto simp: in_set_conv_nth)
  then show ?thesis
    by (simp add: symmetric_path_def symmetric_loop_refuses [of 0 k])
qed

section \<open>The loop over the vertices\<close>

lemma fill_vertices_done:
  "length points \<le> i \<Longrightarrow> fill_vertices path shape atlas sub i points = Inr points"
  by (subst fill_vertices.simps) simp

lemma fill_vertices_step:
  "i < length points \<Longrightarrow> i < length path \<Longrightarrow>
   fill_vertices path shape atlas sub i points =
     fill_vertices path shape atlas sub (Suc i)
       (points[i := textured_vertex shape atlas sub (path ! i)])"
  by (subst fill_vertices.simps) simp

lemma fill_vertices_closed:
  assumes "length points \<le> length path"
  shows "fill_vertices path shape atlas sub i points =
           Inr (take i points @
                map (\<lambda>j. textured_vertex shape atlas sub (path ! j)) [i ..< length points])"
  using assms
proof (induction path shape atlas sub i points rule: fill_vertices.induct)
  case (1 path shape atlas sub i points)
  show ?case
  proof (cases "i < length points")
    case False
    then show ?thesis
      by (simp add: fill_vertices_done)
  next
    case True
    with "1.prems" have p: "i < length path"
      by simp
    let ?v = "textured_vertex shape atlas sub (path ! i)"
    have ih: "fill_vertices path shape atlas sub (Suc i) (points[i := ?v]) =
                Inr (take (Suc i) (points[i := ?v]) @
                     map (\<lambda>j. textured_vertex shape atlas sub (path ! j)) [Suc i ..< length points])"
      using "1.IH" [OF True p] "1.prems" by simp
    have t: "take (Suc i) (points[i := ?v]) = take i points @ [?v]"
      using True by (simp add: take_Suc_conv_app_nth)
    have u: "[i ..< length points] = i # [Suc i ..< length points]"
      using True by (simp add: upt_conv_Cons)
    show ?thesis
      using ih t by (simp add: fill_vertices_step [OF True p] u)
  qed
qed

lemma map_nth_upt: "map (\<lambda>j. f (xs ! j)) [0 ..< length xs] = map f xs"
  by (rule nth_equalityI) simp_all

lemma fill_vertices_all:
  assumes "length points = length path"
  shows "fill_vertices path shape atlas sub 0 points =
           Inr (map (textured_vertex shape atlas sub) path)"
  using assms fill_vertices_closed [of points path shape atlas sub 0]
  by (simp add: map_nth_upt [of "textured_vertex shape atlas sub" path, symmetric])

section \<open>The cache\<close>


lemma set_cache_insert: "set (cache_insert c k p) \<subseteq> insert (k, p) (set c)"
  by (auto simp: cache_insert_def dest: in_set_takeD)

lemma cache_object_hit:
  "map_of c k = Some p \<Longrightarrow> cache_object c k = (Some p, (k, p) # filter (\<lambda>e. fst e \<noteq> k) c)"
  by (simp add: cache_object_def)

lemma cached_path_entry:
  assumes "cached_path qt shape c = Inr (P, c')"
  shows "map_of c' (shape_key shape) = Some P"
  using assms
  by (auto simp: cached_path_def Let_def cache_contains_def cache_object_def cache_insert_def
           split: if_splits option.splits sum.splits)

lemma cached_path_miss:
  assumes "\<not> cache_contains c (shape_key shape)"
  shows "cached_path qt shape c =
           (case build_path qt (shape_key shape) of
              Inl f \<Rightarrow> Inl f
            | Inr p \<Rightarrow> Inr (p, cache_insert c (shape_key shape) p))"
  using assms by (simp add: cached_path_def Let_def)

lemma cache_ok_lookup:
  assumes "cache_ok qt c" and "map_of c k = Some p"
  shows "build_path qt k = Inr p"
  using assms map_of_SomeD [of c k p] by (force simp: cache_ok_def)

lemma cached_path_built:
  assumes "cache_ok qt c" and "cached_path qt shape c = Inr (P, c')"
  shows "build_path qt (shape_key shape) = Inr P"
  using assms
  by (auto simp: cached_path_def Let_def cache_contains_def cache_object_def
           split: if_splits option.splits sum.splits dest: cache_ok_lookup)

lemma cached_path_keeps_ok:
  assumes "cache_ok qt c" and "cached_path qt shape c = Inr (P, c')"
  shows "cache_ok qt c'"
proof -
  have b: "build_path qt (shape_key shape) = Inr P"
    using assms by (rule cached_path_built)
  have "set c' \<subseteq> insert (shape_key shape, P) (set c)"
    using assms(2) set_cache_insert [of c "shape_key shape" P]
    by (auto simp: cached_path_def Let_def cache_contains_def cache_object_def
             split: if_splits option.splits sum.splits)
  with assms(1) b show ?thesis
    by (auto simp: cache_ok_def)
qed

section \<open>The static build\<close>

lemma prepare_geometry_result:
  assumes "prepare_geometry geometry k w = Inr (a, g, w1)"
  shows "length (vertexData g) = k \<and> heap w1 a = Some g \<and> paths w1 = paths w \<and>
         compatible g \<and> rebuild_calls w1 = rebuild_calls w"
  using assms
  by (auto simp: prepare_geometry_def Let_def new_geometry_def allocate_def compatible_def
                 sizeOfVertex_def
           split: option.splits if_splits)

lemma rebuild_static_invalid:
  "\<not> isValid shape \<Longrightarrow> rebuildGeometry_static qt shape geometry atlasTexture w = Inr (None, w)"
  by (simp add: rebuildGeometry_static_def)

lemma rebuild_static_rounded:
  assumes "isValid shape" and "\<not> qFuzzyIsNull (radius shape)"
    and "cached_path qt shape (paths w) = Inr (P, c)"
    and "prepare_geometry geometry (length P) (w\<lparr>paths := c\<rparr>) = Inr (a, g, w1)"
  shows "rebuildGeometry_static qt shape geometry atlasTexture w =
           Inr (Some a,
                w1\<lparr>heap := (heap w1)
                     (a \<mapsto> g\<lparr>vertexData :=
                               map (textured_vertex shape (atlasTexture \<noteq> None)
                                      (texNormalSubRect atlasTexture)) P,
                             indexDataDirty := True, vertexDataDirty := True\<rparr>)\<rparr>)"
proof -
  have len: "length (vertexData g) = length P"
    using prepare_geometry_result [OF assms(4)] by simp
  show ?thesis
    using assms
    by (simp add: rebuildGeometry_static_def count_and_path_def write_vertices_def
                  fill_vertices_all [OF len])
qed

lemma rebuild_static_rounded_cases:
  assumes "isValid shape" and "\<not> qFuzzyIsNull (radius shape)"
    and "rebuildGeometry_static qt shape geometry atlasTexture w = Inr (r, w')"
  shows "\<exists>P c a g w1.
           cached_path qt shape (paths w) = Inr (P, c) \<and>
           prepare_geometry geometry (length P) (w\<lparr>paths := c\<rparr>) = Inr (a, g, w1) \<and>
           r = Some a \<and>
           w' = w1\<lparr>heap := (heap w1)
                     (a \<mapsto> g\<lparr>vertexData :=
                               map (textured_vertex shape (atlasTexture \<noteq> None)
                                      (texNormalSubRect atlasTexture)) P,
                             indexDataDirty := True, vertexDataDirty := True\<rparr>)\<rparr>"
proof (cases "cached_path qt shape (paths w)")
  case (Inl f)
  with assms show ?thesis
    by (simp add: rebuildGeometry_static_def count_and_path_def)
next
  case (Inr pc)
  obtain P c where pc: "pc = (P, c)"
    by (cases pc)
  show ?thesis
  proof (cases "prepare_geometry geometry (length P) (w\<lparr>paths := c\<rparr>)")
    case (Inl f)
    with assms Inr pc show ?thesis
      by (simp add: rebuildGeometry_static_def count_and_path_def)
  next
    case prep: (Inr agw)
    obtain a g w1 where agw: "agw = (a, g, w1)"
      by (cases agw)
    from Inr pc have cp: "cached_path qt shape (paths w) = Inr (P, c)"
      by simp
    from prep agw have pg: "prepare_geometry geometry (length P) (w\<lparr>paths := c\<rparr>) = Inr (a, g, w1)"
      by simp
    from rebuild_static_rounded [OF assms(1,2) cp pg, of atlasTexture] assms(3) cp pg
    show ?thesis
      by auto
  qed
qed


lemma rebuild_static_plain:
  assumes "isValid shape" and "qFuzzyIsNull (radius shape)"
    and "prepare_geometry geometry 4 w = Inr (a, g, w1)"
  shows "rebuildGeometry_static qt shape geometry atlasTexture w =
           Inr (Some a,
                w1\<lparr>heap := (heap w1)
                     (a \<mapsto> (updateTexturedRectGeometry g (rect shape)
                              (texNormalSubRect atlasTexture))
                            \<lparr>indexDataDirty := True, vertexDataDirty := True\<rparr>)\<rparr>)"
  using assms
  by (simp add: rebuildGeometry_static_def count_and_path_def write_vertices_def)

lemma rebuild_static_plain_cases:
  assumes "isValid shape" and "qFuzzyIsNull (radius shape)"
    and "rebuildGeometry_static qt shape geometry atlasTexture w = Inr (r, w')"
  shows "\<exists>a g w1.
           prepare_geometry geometry 4 w = Inr (a, g, w1) \<and> r = Some a \<and>
           w' = w1\<lparr>heap := (heap w1)
                     (a \<mapsto> (updateTexturedRectGeometry g (rect shape)
                              (texNormalSubRect atlasTexture))
                            \<lparr>indexDataDirty := True, vertexDataDirty := True\<rparr>)\<rparr>"
proof (cases "prepare_geometry geometry 4 w")
  case (Inl f)
  with assms show ?thesis
    by (simp add: rebuildGeometry_static_def count_and_path_def)
next
  case (Inr agw)
  obtain a g w1 where "agw = (a, g, w1)"
    by (cases agw)
  with Inr have pg: "prepare_geometry geometry 4 w = Inr (a, g, w1)"
    by simp
  from rebuild_static_plain [OF assms(1,2) pg, of qt atlasTexture] assms(3) pg
  show ?thesis
    by auto
qed

lemma build_path_closed:
  assumes "build_path qt key = Inr P"
  shows "P = map (\<lambda>j. toPointF (simplifiedRoundedRect qt (fst (fst key)) (snd (fst key)) (snd key)
                 ! source_index
                     (length (simplifiedRoundedRect qt (fst (fst key)) (snd (fst key)) (snd key))) j))
             [0 ..< length (simplifiedRoundedRect qt (fst (fst key)) (snd (fst key)) (snd key))]"
proof -
  let ?es = "simplifiedRoundedRect qt (fst (fst key)) (snd (fst key)) (snd key)"
  have "\<forall>e \<in> set ?es. drawable e"
  proof (rule ccontr)
    assume "\<not> (\<forall>e \<in> set ?es. drawable e)"
    then have "symmetric_path ?es = Inl AssertionFailed"
      by (intro symmetric_path_refuses) simp
    with assms show False
      by (simp add: build_path_def)
  qed
  then have "symmetric_path ?es =
               Inr (map (\<lambda>j. toPointF (?es ! source_index (length ?es) j)) [0 ..< length ?es])"
    by (rule symmetric_path_closed)
  with assms show ?thesis
    by (simp add: build_path_def)
qed

lemma rebuild_static_succeeds:
  assumes "isValid shape" and "\<not> qFuzzyIsNull (radius shape)"
    and "\<forall>e \<in> set (simplified_elements qt shape). drawable e"
    and "\<not> cache_contains (paths w) (shape_key shape)"
  shows "\<exists>w'. rebuildGeometry_static qt shape None atlasTexture w = Inr (Some (next_addr w), w')"
proof -
  let ?es = "simplified_elements qt shape"
  let ?P = "map (\<lambda>j. toPointF (?es ! source_index (length ?es) j)) [0 ..< length ?es]"
  have "build_path qt (shape_key shape) = Inr ?P"
    using symmetric_path_closed [OF assms(3)]
    by (simp add: build_path_def shape_key_def simplified_elements_def)
  with assms(4) have cp: "cached_path qt shape (paths w) =
                            Inr (?P, cache_insert (paths w) (shape_key shape) ?P)"
    by (simp add: cached_path_miss)
  have "\<exists>g w1. prepare_geometry None (length ?P)
                  (w\<lparr>paths := cache_insert (paths w) (shape_key shape) ?P\<rparr>) =
                Inr (next_addr w, g, w1)"
    by (simp add: prepare_geometry_def Let_def)
  then obtain g w1 where "prepare_geometry None (length ?P)
                  (w\<lparr>paths := cache_insert (paths w) (shape_key shape) ?P\<rparr>) =
                Inr (next_addr w, g, w1)"
    by blast
  from rebuild_static_rounded [OF assms(1,2) cp this] show ?thesis
    by blast
qed

lemma cache_ok_empty: "cache_ok qt []"
  by (simp add: cache_ok_def)

lemma rebuild_static_keeps_cache_ok:
  assumes "cache_ok qt (paths w)"
    and "rebuildGeometry_static qt shape geometry atlasTexture w = Inr (r, w')"
  shows "cache_ok qt (paths w')"
proof (cases "isValid shape")
  case False
  with assms show ?thesis
    by (simp add: rebuild_static_invalid)
next
  case True
  show ?thesis
  proof (cases "qFuzzyIsNull (radius shape)")
    case plain: True
    from rebuild_static_plain_cases [OF True plain assms(2)] assms(1) show ?thesis
      by (auto dest: prepare_geometry_result)
  next
    case rounded: False
    from rebuild_static_rounded_cases [OF True rounded assms(2)]
    obtain P c a g w1 where cp: "cached_path qt shape (paths w) = Inr (P, c)"
      and pg: "prepare_geometry geometry (length P) (w\<lparr>paths := c\<rparr>) = Inr (a, g, w1)"
      and w': "paths w' = paths w1"
      by auto
    from prepare_geometry_result [OF pg] w' have "paths w' = c"
      by simp
    with cached_path_keeps_ok [OF assms(1) cp] show ?thesis
      by simp
  qed
qed


lemma example_valid: "isValid rounded_shape"
  by (simp add: isValid_def isEmpty_def rounded_shape_def)

lemma example_rounded: "\<not> qFuzzyIsNull (radius rounded_shape)"
  by (simp add: qFuzzyIsNull_def rounded_shape_def)

lemma example_elements: "simplified_elements example_qt rounded_shape = chamfered 100 50 10"
  by (simp add: simplified_elements_def example_qt_def rounded_shape_def)

lemma example_drawable: "\<forall>e \<in> set (simplified_elements example_qt rounded_shape). drawable e"
  by (simp add: example_elements chamfered_def drawable_def)



section \<open>Faults and the count of rebuilds\<close>

lemma qFuzzyCompare_same: "qFuzzyCompare r r"
  by (simp add: qFuzzyCompare_def)

lemma cached_path_fault:
  assumes "cached_path qt shape c = Inl f"
  shows "f = AssertionFailed"
proof (cases "cache_contains c (shape_key shape)")
  case True
  with assms show ?thesis
    by (auto simp: cached_path_def Let_def cache_contains_def cache_object_def)
next
  case False
  let ?es = "simplifiedRoundedRect qt (fst (fst (shape_key shape))) (snd (fst (shape_key shape)))
               (snd (shape_key shape))"
  from False assms have bp: "build_path qt (shape_key shape) = Inl f"
    by (simp add: cached_path_miss split: sum.splits)
  show ?thesis
  proof (cases "\<forall>e \<in> set ?es. drawable e")
    case True
    from symmetric_path_closed [OF True] bp show ?thesis
      by (simp add: build_path_def)
  next
    case False
    then have "symmetric_path ?es = Inl AssertionFailed"
      by (intro symmetric_path_refuses) simp
    with bp show ?thesis
      by (simp add: build_path_def)
  qed
qed

lemma prepare_geometry_fault:
  assumes "prepare_geometry geometry k w = Inl f"
  shows "f = AssertionFailed \<or> f = DanglingPointer"
  using assms
  by (auto simp: prepare_geometry_def Let_def split: option.splits if_splits)

lemma rebuild_static_fault:
  assumes "rebuildGeometry_static qt shape geometry atlasTexture w = Inl f"
  shows "f = AssertionFailed \<or> f = DanglingPointer"
proof (cases "isValid shape")
  case False
  with assms show ?thesis
    by (simp add: rebuild_static_invalid)
next
  case valid: True
  show ?thesis
  proof (cases "qFuzzyIsNull (radius shape)")
    case plain: True
    show ?thesis
    proof (cases "prepare_geometry geometry 4 w")
      case (Inl f')
      with assms valid plain have "f' = f"
        by (simp add: rebuildGeometry_static_def count_and_path_def)
      with prepare_geometry_fault [OF Inl] show ?thesis
        by simp
    next
      case (Inr agw)
      obtain a g w1 where "agw = (a, g, w1)"
        by (cases agw)
      with Inr rebuild_static_plain [OF valid plain, of geometry w a g w1 qt atlasTexture] assms
      show ?thesis
        by simp
    qed
  next
    case rounded: False
    show ?thesis
    proof (cases "cached_path qt shape (paths w)")
      case (Inl f')
      with assms valid rounded have "f' = f"
        by (simp add: rebuildGeometry_static_def count_and_path_def)
      with cached_path_fault [OF Inl] show ?thesis
        by simp
    next
      case (Inr pc)
      obtain P c where pc: "pc = (P, c)"
        by (cases pc)
      show ?thesis
      proof (cases "prepare_geometry geometry (length P) (w\<lparr>paths := c\<rparr>)")
        case (Inl f')
        with assms valid rounded Inr pc have "f' = f"
          by (simp add: rebuildGeometry_static_def count_and_path_def)
        with prepare_geometry_fault [OF Inl] show ?thesis
          by simp
      next
        case prep: (Inr agw)
        obtain a g w1 where "agw = (a, g, w1)"
          by (cases agw)
        with prep Inr pc
          rebuild_static_rounded [OF valid rounded, of qt w P c geometry a g w1 atlasTexture] assms
        show ?thesis
          by simp
      qed
    qed
  qed
qed

lemma rebuild_static_counts:
  assumes "rebuildGeometry_static qt shape geometry atlasTexture w = Inr (r, w')"
  shows "rebuild_calls w' = rebuild_calls w"
proof (cases "isValid shape")
  case False
  with assms show ?thesis
    by (simp add: rebuild_static_invalid)
next
  case True
  show ?thesis
  proof (cases "qFuzzyIsNull (radius shape)")
    case plain: True
    from rebuild_static_plain_cases [OF True plain assms] show ?thesis
      by (auto dest: prepare_geometry_result)
  next
    case rounded: False
    from rebuild_static_rounded_cases [OF True rounded assms] show ?thesis
      by (auto dest: prepare_geometry_result)
  qed
qed

lemma rebuildGeometry_no_texture:
  "m_texture n = None \<Longrightarrow> rebuildGeometry qt n shape w = Inl NullDereference"
  by (simp add: rebuildGeometry_def)

lemma rebuildGeometry_fault:
  assumes "m_texture n \<noteq> None" and "rebuildGeometry qt n shape w = Inl f"
  shows "f = AssertionFailed \<or> f = DanglingPointer"
  using assms
  by (auto simp: rebuildGeometry_def Let_def setGeometry_def
           split: option.splits sum.splits if_splits prod.splits
           dest: rebuild_static_fault)

lemma rebuildGeometry_counts:
  assumes "rebuildGeometry qt n shape w = Inr (r, n', w')"
  shows "rebuild_calls w' = rebuild_calls w + 1"
  using assms
  by (auto simp: rebuildGeometry_def Let_def setGeometry_def
           split: option.splits sum.splits if_splits prod.splits
           dest!: rebuild_static_counts)

lemma rebuildGeometry_invalid:
  assumes "m_texture n \<noteq> None" and "\<not> isValid shape"
  shows "rebuildGeometry qt n shape w = Inr (False, n, w\<lparr>rebuild_calls := rebuild_calls w + 1\<rparr>)"
  using assms
  by (auto simp: rebuildGeometry_def Let_def rebuild_static_invalid)

lemma setShape_equal:
  "Shape_eq (QRectF_equal qt) (m_shape n) shape \<Longrightarrow> setShape qt n shape w = Inr (False, n, w)"
  by (simp add: setShape_def)

lemma setShape_committed:
  assumes "setShape qt n shape w = Inr (True, n', w')"
  shows "m_shape n' = shape"
  using assms
  by (auto simp: setShape_def split: if_splits sum.splits)

lemma setTexture_first:
  "setTexture example_qt constructed (Some plain_texture) initial_world =
     Inr (textured_node, textured_world)"
proof -
  have "\<not> isValid (m_shape (constructed\<lparr>m_texture := Some plain_texture\<rparr>))"
    by (simp add: constructed_def isValid_def isEmpty_def null_rect_def)
  from rebuildGeometry_invalid [OF _ this, where qt = example_qt and w = initial_world]
  show ?thesis
    by (simp add: setTexture_def rebuildGeometry_current_def constructed_def
                  textured_node_def textured_world_def initial_world_def)
qed

section \<open>When a build succeeds\<close>

lemma buffer_ok_paths: "buffer_ok geometry (w\<lparr>paths := c\<rparr>) = buffer_ok geometry w"
  by (simp add: buffer_ok_def split: option.splits)

lemma buffer_ok_calls: "buffer_ok geometry (w\<lparr>rebuild_calls := k\<rparr>) = buffer_ok geometry w"
  by (simp add: buffer_ok_def split: option.splits)

lemma compatible_allocate: "compatible (allocate g k) = compatible g"
  by (simp add: compatible_def allocate_def sizeOfVertex_def)

lemma prepare_geometry_total:
  assumes "buffer_ok geometry w"
  shows "\<exists>a g w1. prepare_geometry geometry k w = Inr (a, g, w1)"
  using assms
  by (auto simp: buffer_ok_def prepare_geometry_def Let_def compatible_allocate
           split: option.splits)

lemma cached_path_total:
  assumes "\<forall>e \<in> set (simplified_elements qt shape). drawable e"
  shows "\<exists>P c'. cached_path qt shape c = Inr (P, c')"
proof (cases "cache_contains c (shape_key shape)")
  case True
  then show ?thesis
    by (auto simp: cached_path_def Let_def cache_contains_def cache_object_def)
next
  case False
  from symmetric_path_closed [OF assms] show ?thesis
    by (simp add: cached_path_miss [OF False] build_path_def shape_key_def simplified_elements_def)
qed

lemma rebuild_static_total:
  assumes "isValid shape"
    and "qFuzzyIsNull (radius shape) \<or> (\<forall>e \<in> set (simplified_elements qt shape). drawable e)"
    and "buffer_ok geometry w"
  shows "\<exists>a w'. rebuildGeometry_static qt shape geometry atlasTexture w = Inr (Some a, w')"
proof (cases "qFuzzyIsNull (radius shape)")
  case True
  from prepare_geometry_total [OF assms(3), of 4]
  obtain a g w1 where "prepare_geometry geometry 4 w = Inr (a, g, w1)"
    by blast
  from rebuild_static_plain [OF assms(1) True this] show ?thesis
    by blast
next
  case False
  with assms(2) have "\<forall>e \<in> set (simplified_elements qt shape). drawable e"
    by simp
  from cached_path_total [OF this, of "paths w"]
  obtain P c where cp: "cached_path qt shape (paths w) = Inr (P, c)"
    by blast
  from assms(3) have "buffer_ok geometry (w\<lparr>paths := c\<rparr>)"
    by (simp add: buffer_ok_paths)
  from prepare_geometry_total [OF this, of "length P"]
  obtain a g w1 where "prepare_geometry geometry (length P) (w\<lparr>paths := c\<rparr>) = Inr (a, g, w1)"
    by blast
  from rebuild_static_rounded [OF assms(1) False cp this] show ?thesis
    by blast
qed

lemma rebuildGeometry_built:
  assumes "m_texture n = Some t"
    and "rebuildGeometry_static qt shape (node_geometry n) (atlas_of t)
           (w\<lparr>rebuild_calls := rebuild_calls w + 1\<rparr>) = Inr (Some a, w1)"
  shows "\<exists>n' w'. rebuildGeometry qt n shape w = Inr (True, n', w') \<and>
           node_geometry n' = Some a \<and> heap w' a = heap w1 a \<and>
           m_shape n' = m_shape n \<and> m_texture n' = m_texture n"
  using assms
  by (auto simp: rebuildGeometry_def Let_def setGeometry_def atlas_of_def split: option.splits)

lemma setShape_total:
  assumes "m_texture n = Some t" and "isValid shape"
    and "qFuzzyIsNull (radius shape) \<or> (\<forall>e \<in> set (simplified_elements qt shape). drawable e)"
    and "buffer_ok (node_geometry n) w"
    and "\<not> Shape_eq (QRectF_equal qt) (m_shape n) shape"
  shows "\<exists>n' w'. setShape qt n shape w = Inr (True, n', w')"
proof -
  from assms(4) have "buffer_ok (node_geometry n) (w\<lparr>rebuild_calls := rebuild_calls w + 1\<rparr>)"
    by (simp add: buffer_ok_calls)
  from rebuild_static_total [OF assms(2,3) this, of "atlas_of t"]
  obtain a w1 where "rebuildGeometry_static qt shape (node_geometry n) (atlas_of t)
           (w\<lparr>rebuild_calls := rebuild_calls w + 1\<rparr>) = Inr (Some a, w1)"
    by blast
  from rebuildGeometry_built [OF assms(1) this]
  obtain n' w' where "rebuildGeometry qt n shape w = Inr (True, n', w')"
    by blast
  with assms(5) show ?thesis
    by (simp add: setShape_def)
qed

lemma textured_node_facts:
  "m_texture textured_node = Some plain_texture"
  "node_geometry textured_node = None"
  "m_shape textured_node = \<lparr>rect = null_rect, radius = 0\<rparr>"
  by (simp_all add: textured_node_def constructed_def)

lemma setTexture_again:
  "setTexture example_qt textured_node (Some plain_texture) textured_world =
     Inr (textured_node, textured_world)"
  by (simp add: setTexture_def textured_node_def constructed_def plain_texture_def)




section \<open>Bounds\<close>







section \<open>Invariants of the store\<close>

lemma compatible_written:
  "compatible (g\<lparr>vertexData := vs, indexDataDirty := i, vertexDataDirty := v\<rparr>) = compatible g"
  by (simp add: compatible_def sizeOfVertex_def)

lemma compatible_updated:
  "compatible (updateTexturedRectGeometry g r t) = compatible g"
  by (simp add: compatible_def sizeOfVertex_def updateTexturedRectGeometry_def)

lemma rebuild_static_buffer_ok:
  assumes "rebuildGeometry_static qt shape geometry atlasTexture w = Inr (Some a, w')"
  shows "buffer_ok (Some a) w'"
proof (cases "isValid shape")
  case False
  with assms show ?thesis
    by (simp add: rebuild_static_invalid)
next
  case valid: True
  show ?thesis
  proof (cases "qFuzzyIsNull (radius shape)")
    case True
    from rebuild_static_plain_cases [OF valid True assms]
    obtain g w1 where "prepare_geometry geometry 4 w = Inr (a, g, w1)"
      and "heap w' a = Some ((updateTexturedRectGeometry g (rect shape)
                               (texNormalSubRect atlasTexture))
                             \<lparr>indexDataDirty := True, vertexDataDirty := True\<rparr>)"
      by auto
    with prepare_geometry_result [of geometry 4 w a g w1] show ?thesis
      by (simp add: buffer_ok_def compatible_def sizeOfVertex_def updateTexturedRectGeometry_def)
  next
    case False
    from rebuild_static_rounded_cases [OF valid False assms]
    obtain P c g w1 where "prepare_geometry geometry (length P) (w\<lparr>paths := c\<rparr>) = Inr (a, g, w1)"
      and "heap w' a = Some (g\<lparr>vertexData :=
                               map (textured_vertex shape (atlasTexture \<noteq> None)
                                      (texNormalSubRect atlasTexture)) P,
                             indexDataDirty := True, vertexDataDirty := True\<rparr>)"
      by auto
    with prepare_geometry_result [of geometry "length P" "w\<lparr>paths := c\<rparr>" a g w1] show ?thesis
      by (simp add: buffer_ok_def compatible_written)
  qed
qed

lemma rebuildGeometry_keeps_buffer_ok:
  assumes "buffer_ok (node_geometry n) w"
    and "rebuildGeometry qt n shape w = Inr (r, n', w')"
  shows "buffer_ok (node_geometry n') w'"
proof (cases "m_texture n")
  case None
  with assms(2) show ?thesis
    by (simp add: rebuildGeometry_no_texture)
next
  case (Some t)
  let ?w0 = "w\<lparr>rebuild_calls := rebuild_calls w + 1\<rparr>"
  show ?thesis
  proof (cases "rebuildGeometry_static qt shape (node_geometry n) (atlas_of t) ?w0")
    case (Inl f)
    with assms(2) Some show ?thesis
      by (simp add: rebuildGeometry_def Let_def)
  next
    case (Inr pw)
    obtain p w1 where pw: "pw = (p, w1)"
      by (cases pw)
    show ?thesis
    proof (cases p)
      case None
      have "\<not> isValid shape"
      proof
        assume "isValid shape"
        with Inr pw None show False
          by (cases "qFuzzyIsNull (radius shape)")
             (auto dest: rebuild_static_plain_cases rebuild_static_rounded_cases)
      qed
      with Inr pw have "w1 = ?w0"
        by (simp add: rebuild_static_invalid)
      with assms(2) Some Inr pw None have "n' = n" and "w' = ?w0"
        by (simp_all add: rebuildGeometry_def Let_def)
      with assms(1) show ?thesis
        by (simp add: buffer_ok_calls)
    next
      case built: (Some a)
      from Inr pw built have static: "rebuildGeometry_static qt shape (node_geometry n) (atlas_of t) ?w0 =
                                Inr (Some a, w1)"
        by simp
      from rebuild_static_buffer_ok [OF static] have ok: "buffer_ok (Some a) w1" .
      from rebuildGeometry_built [OF Some static] assms(2)
      have "node_geometry n' = Some a" and "heap w' a = heap w1 a"
        by auto
      with ok show ?thesis
        by (simp add: buffer_ok_def)
    qed
  qed
qed

lemma setShape_keeps_buffer_ok:
  assumes "buffer_ok (node_geometry n) w"
    and "setShape qt n shape w = Inr (r, n', w')"
  shows "buffer_ok (node_geometry n') w'"
proof (cases "Shape_eq (QRectF_equal qt) (m_shape n) shape")
  case True
  with assms show ?thesis
    by (simp add: setShape_equal)
next
  case False
  with assms(2) obtain n1 where run: "rebuildGeometry qt n shape w = Inr (r, n1, w')"
    and n': "n' = (if r then n1\<lparr>m_shape := shape\<rparr> else n1)"
    by (auto simp: setShape_def split: sum.splits)
  from rebuildGeometry_keeps_buffer_ok [OF assms(1) run] n' show ?thesis
    by simp
qed

lemma rebuildGeometry_static_run:
  assumes "rebuildGeometry qt n shape w = Inr (r, n', w')"
  shows "\<exists>t p w1. m_texture n = Some t \<and>
           rebuildGeometry_static qt shape (node_geometry n) (atlas_of t)
             (w\<lparr>rebuild_calls := rebuild_calls w + 1\<rparr>) = Inr (p, w1) \<and>
           paths w' = paths w1"
  using assms
  by (auto simp: rebuildGeometry_def Let_def setGeometry_def
           split: option.splits sum.splits if_splits)

lemma rebuildGeometry_keeps_cache_ok:
  assumes "cache_ok qt (paths w)"
    and "rebuildGeometry qt n shape w = Inr (r, n', w')"
  shows "cache_ok qt (paths w')"
proof -
  from rebuildGeometry_static_run [OF assms(2)]
  obtain t p w1 where static: "rebuildGeometry_static qt shape (node_geometry n) (atlas_of t)
             (w\<lparr>rebuild_calls := rebuild_calls w + 1\<rparr>) = Inr (p, w1)"
    and paths: "paths w' = paths w1"
    by blast
  from assms(1) have "cache_ok qt (paths (w\<lparr>rebuild_calls := rebuild_calls w + 1\<rparr>))"
    by simp
  from rebuild_static_keeps_cache_ok [OF this static] paths show ?thesis
    by simp
qed

section \<open>The builds of the examples\<close>






text \<open>
  With a texture installed, or for a shape that is equal to the current one, \<^verbatim>\<open>setShape\<close>
  of an invalid shape returns false and changes neither the node nor the buffers, the
  allocator or the cache; the static build of an invalid shape returns the null pointer
  and the store as it was.
\<close>

lemma invalid_shape_changes_nothing:
  assumes "\<not> isValid shape"
  shows "rebuildGeometry_static qt shape geometry atlasTexture w = Inr (None, w) \<and>
         (m_texture n \<noteq> None \<or> Shape_eq (QRectF_equal qt) (m_shape n) shape \<longrightarrow>
            (\<exists>w'. setShape qt n shape w = Inr (False, n, w') \<and> heap w' = heap w \<and>
                   next_addr w' = next_addr w \<and> paths w' = paths w))"
proof -
  have static: "rebuildGeometry_static qt shape geometry atlasTexture w = Inr (None, w)"
    using assms by (rule rebuild_static_invalid)
  have facade: "\<exists>w'. setShape qt n shape w = Inr (False, n, w') \<and> heap w' = heap w \<and>
                   next_addr w' = next_addr w \<and> paths w' = paths w"
    if "m_texture n \<noteq> None \<or> Shape_eq (QRectF_equal qt) (m_shape n) shape"
  proof (cases "Shape_eq (QRectF_equal qt) (m_shape n) shape")
    case True
    then show ?thesis
      by (simp add: setShape_equal)
  next
    case False
    with that have "m_texture n \<noteq> None"
      by simp
    from rebuildGeometry_invalid [OF this assms, of qt w] False show ?thesis
      by (simp add: setShape_def)
  qed
  from static facade show ?thesis
    by blast
qed

section \<open>The claims\<close>

text \<open>
  C1. A build of a rounded shape (valid, radius not fuzzily zero) that misses the outline
  cache and returns a geometry has enumerated the \<open>M\<close> elements of the simplified painter
  path in their order and has produced the point sequence \<open>P\<close>, which it stores in the
  cache and whose length is the vertex count: for every \<open>i < M\<close>, \<open>P ! i\<close> is element
  \<open>M - 1 - i\<close> when \<open>i\<close> is even and element \<open>i\<close> when \<open>i\<close> is odd.
\<close>

theorem symmetric_reorder_on_miss:
  assumes "isValid shape" and "\<not> qFuzzyIsNull (radius shape)"
    and "\<not> cache_contains (paths w) (shape_key shape)"
    and "rebuildGeometry_static qt shape geometry atlasTexture w = Inr (Some a, w')"
  shows "\<exists>P g. map_of (paths w') (shape_key shape) = Some P \<and>
           heap w' a = Some g \<and> vertexCount g = length P \<and>
           length P = length (simplified_elements qt shape) \<and>
           (\<forall>i < length (simplified_elements qt shape).
              (even i \<longrightarrow>
                 P ! i = toPointF (simplified_elements qt shape
                                    ! (length (simplified_elements qt shape) - 1 - i))) \<and>
              (odd i \<longrightarrow> P ! i = toPointF (simplified_elements qt shape ! i)))"
proof -
  let ?es = "simplified_elements qt shape"
  from rebuild_static_rounded_cases [OF assms(1,2,4)]
  obtain P c g w1 where cp: "cached_path qt shape (paths w) = Inr (P, c)"
    and pg: "prepare_geometry geometry (length P) (w\<lparr>paths := c\<rparr>) = Inr (a, g, w1)"
    and w': "w' = w1\<lparr>heap := (heap w1)
                     (a \<mapsto> g\<lparr>vertexData :=
                               map (textured_vertex shape (atlasTexture \<noteq> None)
                                      (texNormalSubRect atlasTexture)) P,
                             indexDataDirty := True, vertexDataDirty := True\<rparr>)\<rparr>"
    by auto
  from cp assms(3) have bp: "build_path qt (shape_key shape) = Inr P"
    by (simp add: cached_path_miss split: sum.splits)
  from build_path_closed [OF bp]
  have P: "P = map (\<lambda>j. toPointF (?es ! source_index (length ?es) j)) [0 ..< length ?es]"
    by (simp add: shape_key_def simplified_elements_def)
  then have len: "length P = length ?es"
    by simp
  have nth: "P ! i = toPointF (?es ! source_index (length ?es) i)" if "i < length ?es" for i
  proof -
    from that have "map (\<lambda>j. toPointF (?es ! source_index (length ?es) j)) [0 ..< length ?es] ! i =
                 toPointF (?es ! source_index (length ?es) i)"
      by simp
    with P show ?thesis
      by simp
  qed
  have paths: "paths w' = c"
    using w' prepare_geometry_result [OF pg] by simp
  have entry: "map_of (paths w') (shape_key shape) = Some P"
    using cached_path_entry [OF cp] paths by simp
  have heap: "heap w' a = Some (g\<lparr>vertexData :=
                               map (textured_vertex shape (atlasTexture \<noteq> None)
                                      (texNormalSubRect atlasTexture)) P,
                             indexDataDirty := True, vertexDataDirty := True\<rparr>)"
    using w' by simp
  have reorder: "(even i \<longrightarrow> P ! i = toPointF (?es ! (length ?es - 1 - i))) \<and>
                 (odd i \<longrightarrow> P ! i = toPointF (?es ! i))" if "i < length ?es" for i
    using nth [OF that] by (auto simp: source_index_def odd_iff_mod_2_eq_one)
  from entry heap len reorder show ?thesis
    by (auto simp: vertexCount_def)
qed

theorem symmetric_reorder_on_miss_witness:
  "\<exists>w' P. rebuildGeometry_static example_qt rounded_shape None None initial_world = Inr (Some 0, w') \<and>
     map_of (paths w') (shape_key rounded_shape) = Some P \<and> length P = 8 \<and>
     P ! 0 = \<lparr>pt_x = 0, pt_y = 10\<rparr> \<and> P ! 1 = \<lparr>pt_x = 90, pt_y = 0\<rparr> \<and>
     P ! 2 = \<lparr>pt_x = 10, pt_y = 50\<rparr> \<and> P ! 3 = \<lparr>pt_x = 100, pt_y = 40\<rparr>"
proof -
  have valid: "isValid rounded_shape"
    by (simp add: isValid_def isEmpty_def rounded_shape_def)
  have rounded: "\<not> qFuzzyIsNull (radius rounded_shape)"
    by (simp add: qFuzzyIsNull_def rounded_shape_def)
  have es: "simplified_elements example_qt rounded_shape = chamfered 100 50 10"
    by (simp add: simplified_elements_def example_qt_def rounded_shape_def)
  have ok: "\<forall>e \<in> set (simplified_elements example_qt rounded_shape). drawable e"
    by (simp add: es chamfered_def drawable_def)
  have miss: "\<not> cache_contains (paths initial_world) (shape_key rounded_shape)"
    by (simp add: cache_contains_def initial_world_def)
  from rebuild_static_succeeds [OF valid rounded ok miss, of None]
  obtain w' where run: "rebuildGeometry_static example_qt rounded_shape None None initial_world =
                          Inr (Some 0, w')"
    by (auto simp: initial_world_def)
  have len: "length (simplified_elements example_qt rounded_shape) = 8"
    by (simp add: es chamfered_def)
  from symmetric_reorder_on_miss [OF valid rounded miss run]
  obtain P where entry: "map_of (paths w') (shape_key rounded_shape) = Some P"
    and lenP: "length P = length (simplified_elements example_qt rounded_shape)"
    and reorder: "\<forall>i < length (simplified_elements example_qt rounded_shape).
              (even i \<longrightarrow>
                 P ! i = toPointF (simplified_elements example_qt rounded_shape
                                    ! (length (simplified_elements example_qt rounded_shape) - 1 - i))) \<and>
              (odd i \<longrightarrow> P ! i = toPointF (simplified_elements example_qt rounded_shape ! i))"
    by blast
  from reorder [rule_format, of 0] have p0: "P ! 0 = \<lparr>pt_x = 0, pt_y = 10\<rparr>"
    by (simp add: len) (simp add: es chamfered_def toPointF_def)
  from reorder [rule_format, of 1] have p1: "P ! 1 = \<lparr>pt_x = 90, pt_y = 0\<rparr>"
    by (simp add: len) (simp add: es chamfered_def toPointF_def)
  from reorder [rule_format, of 2] have p2: "P ! 2 = \<lparr>pt_x = 10, pt_y = 50\<rparr>"
    by (simp add: len) (simp add: es chamfered_def toPointF_def)
  from reorder [rule_format, of 3] have p3: "P ! 3 = \<lparr>pt_x = 100, pt_y = 40\<rparr>"
    by (simp add: len) (simp add: es chamfered_def toPointF_def)
  from entry lenP len p0 p1 p2 p3
  have "map_of (paths w') (shape_key rounded_shape) = Some P \<and> length P = 8 \<and>
     P ! 0 = \<lparr>pt_x = 0, pt_y = 10\<rparr> \<and> P ! 1 = \<lparr>pt_x = 90, pt_y = 0\<rparr> \<and>
     P ! 2 = \<lparr>pt_x = 10, pt_y = 50\<rparr> \<and> P ! 3 = \<lparr>pt_x = 100, pt_y = 40\<rparr>"
    by simp
  with run show ?thesis
    by blast
qed







text \<open>
  C4. \<^verbatim>\<open>setShape\<close> of an invalid shape is to return false and to change nothing. On
  a node that has just been constructed it does not: the null rectangle with radius 10 is
  invalid and differs from the current shape, and the member \<^verbatim>\<open>rebuildGeometry(shape)\<close>
  dereferences the null \<^verbatim>\<open>m_texture\<close> before the static build tests the shape.
\<close>

theorem invalid_shape_without_texture:
  "\<not> isValid empty_shape \<and> m_texture constructed = None \<and>
   setShape example_qt constructed empty_shape initial_world = Inl NullDereference"
  by (simp add: isValid_def isEmpty_def empty_shape_def null_rect_def constructed_def
                setShape_def Shape_eq_def qFuzzyCompare_def example_qt_def
                rebuildGeometry_def)




text \<open>
  C6. \<^verbatim>\<open>setTexture\<close> of a texture that is not null runs a rebuild exactly when the node
  held no texture before, or the texture it held is an atlas texture, or the new texture is
  an atlas texture. A call that returns has run one rebuild in that case and none
  otherwise; a call that stops at a fault has stopped in the rebuild.
\<close>

theorem setTexture_rebuild_condition:
  "(case setTexture qt n (Some t) w of
      Inl f \<Rightarrow> m_texture n = None \<or> previous_atlas n \<or> isAtlasTexture t
    | Inr (n', w') \<Rightarrow>
        rebuild_calls w' =
          rebuild_calls w +
            (if m_texture n = None \<or> previous_atlas n \<or> isAtlasTexture t then 1 else 0))"
proof (cases "m_texture n = None \<or> previous_atlas n \<or> isAtlasTexture t")
  case False
  then show ?thesis
    by (auto simp: setTexture_def previous_atlas_def Let_def split: option.splits)
next
  case True
  then have was: "(case m_texture n of None \<Rightarrow> True | Some old \<Rightarrow> isAtlasTexture old) \<or>
                  isAtlasTexture t"
    by (auto simp: previous_atlas_def split: option.splits)
  show ?thesis
  proof (cases "rebuildGeometry_current qt (n\<lparr>m_texture := Some t\<rparr>) w")
    case (Inl f)
    with True was show ?thesis
      by (simp add: setTexture_def Let_def)
  next
    case (Inr r)
    obtain ret n2 w2 where r: "r = (ret, n2, w2)"
      by (cases r)
    from Inr r have "rebuild_calls w2 = rebuild_calls w + 1"
      by (simp add: rebuildGeometry_current_def rebuildGeometry_counts)
    with Inr r True was show ?thesis
      by (simp add: setTexture_def Let_def)
  qed
qed

theorem setTexture_rebuild_condition_witness:
  "setTexture example_qt constructed (Some plain_texture) initial_world =
     Inr (textured_node, textured_world) \<and>
   m_texture constructed = None \<and> rebuild_calls textured_world = rebuild_calls initial_world + 1 \<and>
   setTexture example_qt textured_node (Some plain_texture) textured_world =
     Inr (textured_node, textured_world) \<and>
   m_texture textured_node \<noteq> None \<and> \<not> previous_atlas textured_node \<and>
   \<not> isAtlasTexture plain_texture"
proof -
  have none: "m_texture constructed = None"
    by (simp add: constructed_def)
  from setTexture_rebuild_condition
         [where qt = example_qt and n = constructed and t = plain_texture and w = initial_world]
  have count: "rebuild_calls textured_world = rebuild_calls initial_world + 1"
    by (simp add: setTexture_first none)
  have rest: "m_texture textured_node \<noteq> None \<and> \<not> previous_atlas textured_node \<and>
              \<not> isAtlasTexture plain_texture"
    by (simp add: textured_node_facts previous_atlas_def plain_texture_def)
  from none count rest setTexture_first setTexture_again show ?thesis
    by simp
qed

theorem first_texture_triggers_rebuild:
  "m_texture constructed = None \<and> \<not> previous_atlas constructed \<and>
   \<not> isAtlasTexture plain_texture \<and>
   setTexture example_qt constructed (Some plain_texture) initial_world =
     Inr (textured_node, textured_world) \<and>
   rebuild_calls initial_world = 0 \<and> rebuild_calls textured_world = 1"
proof -
  have "m_texture constructed = None \<and> \<not> previous_atlas constructed \<and>
        \<not> isAtlasTexture plain_texture \<and>
        rebuild_calls initial_world = 0 \<and> rebuild_calls textured_world = 1"
    by (simp add: previous_atlas_def constructed_def plain_texture_def
                  initial_world_def textured_world_def)
  with setTexture_first show ?thesis
    by simp
qed

text \<open>
  C7. \<^verbatim>\<open>setShape\<close> of a shape that is equal to the current shape of the node returns
  false and changes nothing: no rebuild is run, and the node, its geometry pointer and the
  buffers are as before. After a \<^verbatim>\<open>setShape\<close> that has succeeded, the same call again is
  such a call (a rectangle being equal to itself).
\<close>

theorem setShape_of_equal_shape:
  "(Shape_eq (QRectF_equal qt) (m_shape n) shape \<longrightarrow> setShape qt n shape w = Inr (False, n, w)) \<and>
   (setShape qt n shape w = Inr (True, n', w') \<and> QRectF_equal qt (rect shape) (rect shape) \<longrightarrow>
      setShape qt n' shape w' = Inr (False, n', w') \<and> rebuild_calls w' = rebuild_calls w + 1)"
proof -
  have again: "setShape qt n' shape w' = Inr (False, n', w')"
    if "setShape qt n shape w = Inr (True, n', w')" and "QRectF_equal qt (rect shape) (rect shape)"
  proof -
    from setShape_committed [OF that(1)] that(2)
    have "Shape_eq (QRectF_equal qt) (m_shape n') shape"
      by (simp add: Shape_eq_def qFuzzyCompare_same)
    then show ?thesis
      by (rule setShape_equal)
  qed
  have once: "rebuild_calls w' = rebuild_calls w + 1"
    if "setShape qt n shape w = Inr (True, n', w')"
    using that
    by (auto simp: setShape_def split: if_splits sum.splits dest: rebuildGeometry_counts)
  show ?thesis
    using again once by (auto simp: setShape_equal)
qed

theorem setShape_of_equal_shape_witness:
  "Shape_eq (QRectF_equal example_qt) (m_shape constructed) (m_shape constructed) \<and>
   setShape example_qt constructed (m_shape constructed) initial_world =
     Inr (False, constructed, initial_world) \<and>
   QRectF_equal example_qt (rect rounded_shape) (rect rounded_shape) \<and>
   (\<exists>n' w'. setShape example_qt textured_node rounded_shape textured_world = Inr (True, n', w') \<and>
      setShape example_qt n' rounded_shape w' = Inr (False, n', w') \<and>
      rebuild_calls w' = 2)"
proof -
  have eq: "Shape_eq (QRectF_equal example_qt) (m_shape constructed) (m_shape constructed)"
    by (simp add: Shape_eq_def qFuzzyCompare_same example_qt_def)
  have refl: "QRectF_equal example_qt (rect rounded_shape) (rect rounded_shape)"
    by (simp add: example_qt_def)
  have differs: "\<not> Shape_eq (QRectF_equal example_qt) (m_shape textured_node) rounded_shape"
    by (simp add: Shape_eq_def textured_node_facts example_qt_def rounded_shape_def null_rect_def)
  have "buffer_ok (node_geometry textured_node) textured_world"
    by (simp add: buffer_ok_def textured_node_facts)
  from setShape_total [OF textured_node_facts(1) example_valid _ this differs] example_drawable
  obtain n' w' where run: "setShape example_qt textured_node rounded_shape textured_world =
                             Inr (True, n', w')"
    by blast
  from setShape_of_equal_shape
         [where qt = example_qt and n = constructed and shape = "m_shape constructed"
            and w = initial_world] eq
  have first: "setShape example_qt constructed (m_shape constructed) initial_world =
                 Inr (False, constructed, initial_world)"
    by simp
  from setShape_of_equal_shape
         [where qt = example_qt and n = textured_node and shape = rounded_shape
            and w = textured_world and n' = n' and w' = w'] run refl
  have "setShape example_qt n' rounded_shape w' = Inr (False, n', w') \<and> rebuild_calls w' = 2"
    by (simp add: textured_world_def)
  with eq first refl run show ?thesis
    by blast
qed

text \<open>
  C8. Shape equality is the equality of the rectangles (the comparison of
  \<^verbatim>\<open>QRectF\<close>) and \<^verbatim>\<open>qFuzzyCompare\<close> of the radii \<open>a\<close> and \<open>b\<close>:
  \<open>\<bar>a - b\<bar> * 10\<^sup>1\<^sup>2 \<le> min \<bar>a\<bar> \<bar>b\<bar>\<close>. The tolerance is relative to the smaller of the
  two magnitudes, so equal radii are within \<open>10\<^sup>-\<^sup>1\<^sup>2 * max 1 \<bar>a\<bar> \<bar>b\<bar>\<close> of each other, but
  a radius of 0 is equal to a radius of 0 only.
\<close>

theorem Shape_equality_is_relative:
  "(Shape_eq rect_eq a b \<longleftrightarrow>
      rect_eq (rect a) (rect b) \<and>
      \<bar>radius a - radius b\<bar> * 1000000000000 \<le> min \<bar>radius a\<bar> \<bar>radius b\<bar>) \<and>
   (Shape_eq rect_eq a b \<longrightarrow>
      \<bar>radius a - radius b\<bar> \<le> max 1 (max \<bar>radius a\<bar> \<bar>radius b\<bar>) / 1000000000000) \<and>
   (Shape_eq rect_eq a b \<and> radius a = 0 \<longrightarrow> radius b = 0)"
proof -
  have tol: "\<bar>radius a - radius b\<bar> \<le> max 1 (max \<bar>radius a\<bar> \<bar>radius b\<bar>) / 1000000000000"
    if "\<bar>radius a - radius b\<bar> * 1000000000000 \<le> min \<bar>radius a\<bar> \<bar>radius b\<bar>"
  proof -
    have "min \<bar>radius a\<bar> \<bar>radius b\<bar> \<le> max 1 (max \<bar>radius a\<bar> \<bar>radius b\<bar>)"
      by simp
    with that have "\<bar>radius a - radius b\<bar> * 1000000000000 \<le> max 1 (max \<bar>radius a\<bar> \<bar>radius b\<bar>)"
      by (rule order_trans)
    then show ?thesis
      by (simp add: field_simps)
  qed
  have zero: "radius b = 0"
    if "\<bar>radius a - radius b\<bar> * 1000000000000 \<le> min \<bar>radius a\<bar> \<bar>radius b\<bar>" and "radius a = 0"
    using that by simp
  show ?thesis
    using tol zero by (auto simp: Shape_eq_def qFuzzyCompare_def)
qed

theorem Shape_equality_is_relative_witness:
  "Shape_eq (=) rounded_shape rounded_shape \<and>
   \<bar>radius rounded_shape - radius rounded_shape\<bar>
     \<le> max 1 (max \<bar>radius rounded_shape\<bar> \<bar>radius rounded_shape\<bar>) / 1000000000000 \<and>
   Shape_eq (=) zero_shape zero_shape \<and> radius zero_shape = 0"
proof -
  have r: "Shape_eq (=) rounded_shape rounded_shape"
    by (simp add: Shape_eq_def qFuzzyCompare_same)
  have z: "Shape_eq (=) zero_shape zero_shape"
    by (simp add: Shape_eq_def qFuzzyCompare_same)
  from Shape_equality_is_relative [of "(=)" rounded_shape rounded_shape]
       Shape_equality_is_relative [of "(=)" zero_shape zero_shape] r z
  show ?thesis
    by (simp add: zero_shape_def)
qed

theorem zero_radius_not_fuzzily_equal:
  "rect zero_shape = rect tiny_shape \<and> radius zero_shape = 0 \<and>
   radius tiny_shape = 5 / 10000000000000 \<and> \<not> Shape_eq (=) zero_shape tiny_shape"
  by (simp add: Shape_eq_def qFuzzyCompare_def zero_shape_def tiny_shape_def)

text \<open>
  C9. When the simplified outline of a rounded shape holds an element that is neither a
  move-to nor a line-to, the build stops at the assertion of the loop: no geometry is
  returned and nothing is stored. The cache cannot hold a path for such a shape, because
  every entry has passed the assertions when it was built.
\<close>

theorem curve_element_refused:
  assumes "isValid shape" and "\<not> qFuzzyIsNull (radius shape)"
    and "cache_ok qt (paths w)"
    and "\<exists>e \<in> set (simplified_elements qt shape). \<not> drawable e"
  shows "rebuildGeometry_static qt shape geometry atlasTexture w = Inl AssertionFailed"
proof -
  have bp: "build_path qt (shape_key shape) = Inl AssertionFailed"
    using symmetric_path_refuses [OF assms(4)]
    by (simp add: build_path_def shape_key_def simplified_elements_def)
  have miss: "\<not> cache_contains (paths w) (shape_key shape)"
  proof
    assume "cache_contains (paths w) (shape_key shape)"
    then obtain p where "map_of (paths w) (shape_key shape) = Some p"
      by (auto simp: cache_contains_def)
    from cache_ok_lookup [OF assms(3) this] bp show False
      by simp
  qed
  have "cached_path qt shape (paths w) = Inl AssertionFailed"
    by (simp add: cached_path_miss [OF miss] bp)
  with assms(1,2) show ?thesis
    by (simp add: rebuildGeometry_static_def count_and_path_def)
qed

theorem curve_element_refused_witness:
  "isValid rounded_shape \<and> \<not> qFuzzyIsNull (radius rounded_shape) \<and>
   cache_ok arc_qt (paths initial_world) \<and>
   \<not> drawable (simplified_elements arc_qt rounded_shape ! 2) \<and>
   rebuildGeometry_static arc_qt rounded_shape None None initial_world = Inl AssertionFailed"
proof -
  have ok: "cache_ok arc_qt (paths initial_world)"
    by (simp add: initial_world_def cache_ok_empty)
  have es: "simplified_elements arc_qt rounded_shape = with_arc 100 50 10"
    by (simp add: simplified_elements_def arc_qt_def rounded_shape_def)
  have curve: "\<not> drawable (simplified_elements arc_qt rounded_shape ! 2)"
    by (simp add: es with_arc_def drawable_def)
  have "simplified_elements arc_qt rounded_shape ! 2 \<in> set (simplified_elements arc_qt rounded_shape)"
    by (simp add: es with_arc_def)
  with curve have ex: "\<exists>e \<in> set (simplified_elements arc_qt rounded_shape). \<not> drawable e"
    by blast
  from curve_element_refused [OF example_valid example_rounded ok ex, of None None]
    example_valid example_rounded ok curve
  show ?thesis
    by simp
qed

text \<open>
  C10. A node in which no texture has been installed dereferences the null
  \<^verbatim>\<open>m_texture\<close> in every rebuild through the node: in \<^verbatim>\<open>rebuildGeometry()\<close>, in
  \<^verbatim>\<open>rebuildGeometry(shape)\<close>, and in \<^verbatim>\<open>setShape\<close> of a shape that differs from the
  current one (valid or not). With a texture installed no rebuild does so.
\<close>

theorem rebuild_dereferences_null_texture:
  "(m_texture n = None \<longrightarrow>
      rebuildGeometry_current qt n w = Inl NullDereference \<and>
      rebuildGeometry qt n shape w = Inl NullDereference \<and>
      (\<not> Shape_eq (QRectF_equal qt) (m_shape n) shape \<longrightarrow>
         setShape qt n shape w = Inl NullDereference)) \<and>
   (m_texture n \<noteq> None \<longrightarrow>
      rebuildGeometry qt n shape w \<noteq> Inl NullDereference \<and>
      setShape qt n shape w \<noteq> Inl NullDereference)"
proof -
  have a: "setShape qt n shape w \<noteq> Inl NullDereference" if "m_texture n \<noteq> None"
  proof
    assume f: "setShape qt n shape w = Inl NullDereference"
    then have "rebuildGeometry qt n shape w = Inl NullDereference"
      by (auto simp: setShape_def split: if_splits sum.splits)
    with rebuildGeometry_fault [OF that] show False
      by blast
  qed
  have b: "rebuildGeometry qt n shape w \<noteq> Inl NullDereference" if "m_texture n \<noteq> None"
    using rebuildGeometry_fault [OF that, of qt shape w NullDereference] by blast
  show ?thesis
    using a b
    by (auto simp: rebuildGeometry_current_def rebuildGeometry_no_texture setShape_def)
qed

theorem rebuild_dereferences_null_texture_witness:
  "m_texture constructed = None \<and>
   rebuildGeometry_current example_qt constructed initial_world = Inl NullDereference \<and>
   \<not> Shape_eq (QRectF_equal example_qt) (m_shape constructed) rounded_shape \<and>
   setShape example_qt constructed rounded_shape initial_world = Inl NullDereference \<and>
   m_texture textured_node \<noteq> None \<and>
   setShape example_qt textured_node rounded_shape textured_world \<noteq> Inl NullDereference"
proof -
  have none: "m_texture constructed = None"
    by (simp add: constructed_def)
  have some: "m_texture textured_node \<noteq> None"
    by (simp add: textured_node_def constructed_def)
  have differs: "\<not> Shape_eq (QRectF_equal example_qt) (m_shape constructed) rounded_shape"
    by (simp add: Shape_eq_def constructed_def example_qt_def rounded_shape_def null_rect_def)
  from rebuild_dereferences_null_texture
         [where n = constructed and qt = example_qt and w = initial_world and shape = rounded_shape]
       rebuild_dereferences_null_texture
         [where n = textured_node and qt = example_qt and w = textured_world and shape = rounded_shape]
       none some differs
  show ?thesis
    by simp
qed

end
